theory Spec2Isabelle
  imports Complex_Main "HOL-Library.Word"
begin

section \<open>JavaScript values\<close>

text \<open>
  The wrapper \<^verbatim>\<open>lib/new/tox.js\<close> is plain JavaScript around a native library reached
  through \<^verbatim>\<open>ffi\<close>. Its arguments are untyped, so they are modelled as a datatype of
  JavaScript values. A number is a double: only its order against zero and whether it is
  \<^verbatim>\<open>NaN\<close> matter below, so a finite number is a rational. A string is a list of
  characters with codes below 256; a \<^verbatim>\<open>Buffer\<close> is a list of bytes; an object is its list
  of own data properties.
\<close>

type_synonym byte = "8 word"

datatype jsnum = NaN | NegInf | PosInf | Fin rat

datatype jsval =
    JUndefined
  | JNull
  | JBool bool
  | JNum jsnum
  | JStr string
  | JBuf "byte list"
  | JObj "(string \<times> jsval) list"

text \<open>\<^verbatim>\<open>!!v\<close>: the falsy values are undefined, null, false, 0, NaN and the empty string.\<close>

fun truthy :: "jsval \<Rightarrow> bool" where
  "truthy JUndefined = False"
| "truthy JNull = False"
| "truthy (JBool b) = b"
| "truthy (JNum NaN) = False"
| "truthy (JNum (Fin q)) = (q \<noteq> 0)"
| "truthy (JNum _) = True"
| "truthy (JStr s) = (s \<noteq> [])"
| "truthy (JBuf _) = True"
| "truthy (JObj _) = True"

text \<open>
  \<^verbatim>\<open>v[k]\<close> for the property names the wrapper reads (ipv6, udp, proxy, type, address,
  port): an own property of an object, undefined otherwise. The wrapper never reads a
  property of undefined or null.
\<close>

fun get_prop :: "jsval \<Rightarrow> string \<Rightarrow> jsval" where
  "get_prop (JObj fs) k = (case map_of fs k of Some v \<Rightarrow> v | None \<Rightarrow> JUndefined)"
| "get_prop _ k = JUndefined"

text \<open>
  The tests \<^verbatim>\<open>_.isString\<close> and \<^verbatim>\<open>_.isObject\<close> of \<^verbatim>\<open>underscore\<close>, on the values modelled.
  Where the wrapper tests \<^verbatim>\<open>_.isString\<close> or \<^verbatim>\<open>_.isNumber\<close> on a property and then uses
  it, the model matches on the constructor.
\<close>

fun isString :: "jsval \<Rightarrow> bool" where
  "isString (JStr _) = True"
| "isString _ = False"

fun isObject :: "jsval \<Rightarrow> bool" where
  "isObject (JObj _) = True"
| "isObject (JBuf _) = True"
| "isObject _ = False"

subsection \<open>Strings and buffers\<close>

text \<open>\<^verbatim>\<open>new Buffer(str)\<close> holds the UTF-8 encoding of the string.\<close>

definition utf8_char :: "char \<Rightarrow> byte list" where
  "utf8_char c =
     (let n = (of_char c :: nat)
      in if n < 128 then [of_nat n] else [of_nat (192 + n div 64), of_nat (128 + n mod 64)])"

definition utf8 :: "string \<Rightarrow> byte list" where
  "utf8 s = concat (map utf8_char s)"

text \<open>
  The bytes \<^verbatim>\<open>buf.write(str, offset, length)\<close> puts down: the encodings of the leading
  characters of the string that fit whole into \<open>n\<close> bytes (a character is never written
  in part).
\<close>

fun utf8_fit :: "nat \<Rightarrow> string \<Rightarrow> byte list" where
  "utf8_fit n [] = []"
| "utf8_fit n (c # cs) =
     (let e = utf8_char c
      in if length e \<le> n then e @ utf8_fit (n - length e) cs else [])"

definition buffer_write :: "byte list \<Rightarrow> string \<Rightarrow> nat \<Rightarrow> nat \<Rightarrow> byte list" where
  "buffer_write buf str offset len =
     (let w = utf8_fit (min len (length buf - offset)) str
      in take offset buf @ w @ drop (offset + length w) buf)"

text \<open>
  The regular expressions \<^verbatim>\<open>/^http$/i\<close> and \<^verbatim>\<open>/^socks5?$/i\<close>: the whole string, letters
  compared without regard to ASCII case.
\<close>

definition ascii_lower :: "char \<Rightarrow> char" where
  "ascii_lower c =
     (let n = (of_char c :: nat) in if 65 \<le> n \<and> n \<le> 90 then char_of (n + 32) else c)"

definition test_http :: "string \<Rightarrow> bool" where
  "test_http s = (map ascii_lower s = ''http'')"

definition test_socks5 :: "string \<Rightarrow> bool" where
  "test_socks5 s = (map ascii_lower s = ''socks'' \<or> map ascii_lower s = ''socks5'')"

section \<open>Errors\<close>

text \<open>
  Every \<^verbatim>\<open>throw\<close> of the wrapper is a constructor:
  \<^item> \<open>ReferenceError x\<close>: the identifier \<open>x\<close> is read and nothing declares it;
  \<^item> \<open>ToxNewError v\<close>: \<^verbatim>\<open>new Error('tox_new error: ' + v)\<close>;
  \<^item> \<open>ToxBootstrapError v\<close>: \<^verbatim>\<open>new Error('tox_bootstrap: ' + v)\<close>;
  \<^item> \<open>BootstrapFalseNoError\<close>:
    \<^verbatim>\<open>new Error('tox_bootstrap returned false but no error set at eptr')\<close>;
  \<^item> \<open>LibraryError m\<close>: an error raised inside one of the libraries the wrapper calls.
\<close>

datatype error =
    ReferenceError string
  | ToxNewError byte
  | ToxBootstrapError byte
  | BootstrapFalseNoError
  | LibraryError string

section \<open>What the file takes from outside\<close>

text \<open>
  The modules \<^verbatim>\<open>consts\<close> and \<^verbatim>\<open>util\<close> and the libraries \<^verbatim>\<open>buffertools\<close>, \<^verbatim>\<open>ref\<close> and
  \<^verbatim>\<open>ffi\<close> are not part of the file; what the file uses of them is a parameter:
  \<^item> the three constants read as \<^verbatim>\<open>consts.NAME\<close>, numbers that fit the \<^verbatim>\<open>uint8\<close> fields
    they are compared with and stored in;
  \<^item> \<open>globals\<close>: the value of an identifier that the file reads without declaring or
    importing it (\<^verbatim>\<open>TOX_PROXY_NONE\<close>, \<^verbatim>\<open>TOX_PROXY_TYPE_HTTP\<close>, \<^verbatim>\<open>TOX_PROXY_TYPE_SOCKS5\<close>,
    \<^verbatim>\<open>TOX_PROXY_TYPE_NONE\<close>), \<open>None\<close> when the global scope does not bind it;
  \<^item> \<open>parseProxy\<close>: \<^verbatim>\<open>util.parseProxy\<close>;
  \<^item> \<open>fromHex\<close>: \<^verbatim>\<open>buffertools\<close>' \<^verbatim>\<open>fromHex\<close> on the bytes of a buffer;
  \<^item> \<open>uint16_other\<close>: what storing a number that is not an integer of 0..65535 into a
    \<^verbatim>\<open>uint16\<close> field does;
  \<^item> \<open>ffi_reject\<close>: the error \<^verbatim>\<open>ffi\<close> raises when the port or the key handed to
    \<^verbatim>\<open>tox_bootstrap\<close> cannot be converted to the declared C types, \<open>None\<close> when they can;
  \<^item> \<open>to_number_other\<close>: \<^verbatim>\<open>ToNumber\<close> of a string or an object.
\<close>

record env =
  TOX_PROXY_TYPE_NONE :: byte
  TOX_ERR_NEW_OK :: byte
  TOX_ERR_BOOTSTRAP_OK :: byte
  globals :: "string \<Rightarrow> byte option"
  parseProxy :: "string \<Rightarrow> jsval"
  fromHex :: "byte list \<Rightarrow> error + byte list"
  uint16_other :: "jsnum \<Rightarrow> error + 16 word"
  ffi_reject :: "jsval \<Rightarrow> jsval \<Rightarrow> error option"
  to_number_other :: "jsval \<Rightarrow> jsnum"

text \<open>Reading an identifier of the global scope.\<close>

definition read_global :: "env \<Rightarrow> string \<Rightarrow> error + byte" where
  "read_global e x = (case globals e x of None \<Rightarrow> Inl (ReferenceError x) | Some v \<Rightarrow> Inr v)"

text \<open>Storing a number into a \<^verbatim>\<open>uint16\<close> field.\<close>

definition uint16_set :: "env \<Rightarrow> jsnum \<Rightarrow> error + 16 word" where
  "uint16_set e n =
     (case n of
        Fin q \<Rightarrow>
          if of_int \<lfloor>q\<rfloor> = q \<and> 0 \<le> q \<and> q \<le> 65535 then Inr (word_of_int \<lfloor>q\<rfloor>)
          else uint16_other e n
      | _ \<Rightarrow> uint16_other e n)"

section \<open>The options struct\<close>

text \<open>
  \<^verbatim>\<open>ToxOptions\<close>, the \<^verbatim>\<open>RefStruct\<close> of lines 19 to 27. \<open>proxy_address\<close> is the
  \<^verbatim>\<open>char[256]\<close> array.
\<close>

record ToxOptions =
  ipv6enabled :: byte
  udp_disabled :: byte
  proxy_type :: byte
  proxy_address :: "byte list"
  proxy_port :: "16 word"
  start_port :: "16 word"
  end_port :: "16 word"

subsection \<open>\<^verbatim>\<open>_setProxyToToxOptions\<close> (lines 97 to 125)\<close>

text \<open>Lines 107 to 111: the proxy type.\<close>

definition set_proxy_type :: "env \<Rightarrow> jsval \<Rightarrow> ToxOptions \<Rightarrow> error + ToxOptions" where
  "set_proxy_type e proxy options =
     (case read_global e ''TOX_PROXY_NONE'' of
        Inl err \<Rightarrow> Inl err
      | Inr none \<Rightarrow>
          (let options1 = options\<lparr>proxy_type := none\<rparr>
           in case get_prop proxy ''type'' of
                JStr t \<Rightarrow>
                  if test_http t then
                    (case read_global e ''TOX_PROXY_TYPE_HTTP'' of
                       Inl err \<Rightarrow> Inl err
                     | Inr v \<Rightarrow> Inr (options1\<lparr>proxy_type := v\<rparr>))
                  else if test_socks5 t then
                    (case read_global e ''TOX_PROXY_TYPE_SOCKS5'' of
                       Inl err \<Rightarrow> Inl err
                     | Inr v \<Rightarrow> Inr (options1\<lparr>proxy_type := v\<rparr>))
                  else Inr options1
              | _ \<Rightarrow> Inr options1))"

text \<open>Lines 115 to 117: the address, at most \<^verbatim>\<open>proxy_address.length - 1\<close> bytes.\<close>

definition set_proxy_address :: "jsval \<Rightarrow> ToxOptions \<Rightarrow> ToxOptions" where
  "set_proxy_address proxy options =
     (case get_prop proxy ''address'' of
        JStr a \<Rightarrow>
          options\<lparr>proxy_address :=
            buffer_write (proxy_address options) a 0 (length (proxy_address options) - 1)\<rparr>
      | _ \<Rightarrow> options)"

text \<open>Lines 120 to 122: the port.\<close>

definition set_proxy_port :: "env \<Rightarrow> jsval \<Rightarrow> ToxOptions \<Rightarrow> error + ToxOptions" where
  "set_proxy_port e proxy options =
     (case get_prop proxy ''port'' of
        JNum n \<Rightarrow>
          (case uint16_set e n of
             Inl err \<Rightarrow> Inl err
           | Inr p \<Rightarrow> Inr (options\<lparr>proxy_port := p\<rparr>))
      | _ \<Rightarrow> Inr options)"

text \<open>Lines 98 to 103: a proxy given as a string is parsed first.\<close>

definition proxy_of_opts :: "env \<Rightarrow> jsval \<Rightarrow> jsval" where
  "proxy_of_opts e opts =
     (let proxy = get_prop opts ''proxy''
      in if isString proxy then (case proxy of JStr s \<Rightarrow> parseProxy e s | _ \<Rightarrow> proxy)
         else proxy)"

definition setProxyToToxOptions :: "env \<Rightarrow> jsval \<Rightarrow> ToxOptions \<Rightarrow> error + ToxOptions" where
  "setProxyToToxOptions e opts options =
     (let proxy = proxy_of_opts e opts
      in if isObject proxy then
           (case set_proxy_type e proxy options of
              Inl err \<Rightarrow> Inl err
            | Inr options1 \<Rightarrow>
                (case read_global e ''TOX_PROXY_TYPE_NONE'' of
                   Inl err \<Rightarrow> Inl err
                 | Inr none \<Rightarrow>
                     if proxy_type options1 \<noteq> none
                     then set_proxy_port e proxy (set_proxy_address proxy options1)
                     else Inr options1))
         else Inr options)"

subsection \<open>\<^verbatim>\<open>_createToxOptions\<close> (lines 70 to 89)\<close>

text \<open>
  \<open>fresh\<close> is the struct as \<^verbatim>\<open>new ToxOptions()\<close> hands it over. Its backing store is a
  \<^verbatim>\<open>new Buffer(size)\<close>, which the Node versions the repository is tested on (0.10 to 6)
  allocate without clearing, so its fields hold whatever the memory held. Line 76
  clears the 256 bytes of the address; lines 77, 78, 83 and 84 assign four more fields.
\<close>

definition createToxOptions :: "env \<Rightarrow> ToxOptions \<Rightarrow> jsval \<Rightarrow> error + ToxOptions" where
  "createToxOptions e fresh opts =
     (let ipv6_0 = get_prop opts ''ipv6'';
          udp_0 = get_prop opts ''udp'';
          toxopts1 = fresh\<lparr>proxy_address := replicate 256 0\<rparr>;
          toxopts2 = toxopts1\<lparr>proxy_type := TOX_PROXY_TYPE_NONE e\<rparr>;
          toxopts3 = toxopts2\<lparr>proxy_port := 0\<rparr>;
          ipv6 = (if ipv6_0 \<noteq> JUndefined then truthy ipv6_0 else False);
          udp = (if udp_0 \<noteq> JUndefined then truthy udp_0 else True);
          toxopts4 = toxopts3\<lparr>ipv6enabled := (if ipv6 then 1 else 0)\<rparr>;
          toxopts5 = toxopts4\<lparr>udp_disabled := (if udp then 0 else 1)\<rparr>
      in setProxyToToxOptions e opts toxopts5)"

section \<open>The engine boundary\<close>

text \<open>
  The native library is opaque. Each call the wrapper makes through \<^verbatim>\<open>ffi\<close> is recorded
  in a log, and what the library answers is a parameter that may depend on every call
  made before. A pointer is a number.
\<close>

type_synonym ptr = nat

datatype ffi_call =
    Call_tox_new "ToxOptions option"
  | Call_tox_bootstrap ptr "byte list" jsval jsval
  | Call_tox_iteration_interval ptr
  | Call_tox_iterate ptr
  | Call_tox_kill ptr
  | Call_tox_get_savedata_size ptr
  | Call_tox_get_savedata ptr nat

text \<open>
  \<open>new_result\<close> is the pointer \<^verbatim>\<open>tox_new\<close> returns and the status it leaves behind the
  error pointer; \<open>bootstrap_result\<close> the boolean \<^verbatim>\<open>tox_bootstrap\<close> returns and its status.
\<close>

record engine =
  new_result :: "ffi_call list \<Rightarrow> ToxOptions option \<Rightarrow> ptr \<times> byte"
  bootstrap_result :: "ffi_call list \<Rightarrow> ptr \<Rightarrow> byte list \<Rightarrow> jsval \<Rightarrow> jsval \<Rightarrow> bool \<times> byte"
  interval_result :: "ffi_call list \<Rightarrow> ptr \<Rightarrow> 32 word"
  savedata_size_result :: "ffi_call list \<Rightarrow> ptr \<Rightarrow> nat"
  savedata_result :: "ffi_call list \<Rightarrow> ptr \<Rightarrow> byte list"

text \<open>
  A \<^verbatim>\<open>Tox\<close> instance and the world around it: \<open>handle\<close> is \<^verbatim>\<open>this._handle\<close>, \<open>interval\<close>
  is \<^verbatim>\<open>this._interval\<close> (the timer \<^verbatim>\<open>setInterval\<close> returned, or undefined), \<open>calls\<close> the
  log of native calls, \<open>timers\<close> the repeating timers that are armed, each with the delay
  it was given, and \<open>next_timer\<close> the next timer to be handed out.
\<close>

record tox =
  handle :: ptr
  interval :: "nat option"
  calls :: "ffi_call list"
  timers :: "(nat \<times> jsval) list"
  next_timer :: nat

subsection \<open>Creation (lines 133 to 160)\<close>

definition checkToxNewError :: "env \<Rightarrow> byte \<Rightarrow> error + unit" where
  "checkToxNewError e val = (if val \<noteq> TOX_ERR_NEW_OK e then Inl (ToxNewError val) else Inr ())"

text \<open>\<open>options\<close> is \<open>None\<close> when \<^verbatim>\<open>_initNew\<close> gets none and passes the null pointer.\<close>

definition initNew :: "env \<Rightarrow> engine \<Rightarrow> ToxOptions option \<Rightarrow> tox \<Rightarrow> (error + unit) \<times> tox" where
  "initNew e eng options s =
     (let (h, errorValue) = new_result eng (calls s) options;
          s1 = s\<lparr>handle := h, calls := calls s @ [Call_tox_new options]\<rparr>
      in (checkToxNewError e errorValue, s1))"

subsection \<open>Bootstrap (lines 169 to 248)\<close>

definition getToxBootstrapError :: "env \<Rightarrow> byte \<Rightarrow> error option" where
  "getToxBootstrapError e val =
     (if val \<noteq> TOX_ERR_BOOTSTRAP_OK e then Some (ToxBootstrapError val) else None)"

text \<open>
  Lines 205 to 207 and 236 to 238: a string key becomes the buffer
  \<^verbatim>\<open>(new Buffer(publicKey)).fromHex()\<close>, any other key is left as it is.
\<close>

definition publicKey_param :: "env \<Rightarrow> jsval \<Rightarrow> error + jsval" where
  "publicKey_param e publicKey =
     (case publicKey of
        JStr k \<Rightarrow> (case fromHex e (utf8 k) of Inl err \<Rightarrow> Inl err | Inr bs \<Rightarrow> Inr (JBuf bs))
      | _ \<Rightarrow> Inr publicKey)"

text \<open>Line 203 and 234: \<^verbatim>\<open>new Buffer(address + '\0')\<close>.\<close>

definition address_param :: "string \<Rightarrow> byte list" where
  "address_param address = utf8 (address @ [char_of (0::nat)])"

definition bootstrapSync ::
  "env \<Rightarrow> engine \<Rightarrow> string \<Rightarrow> jsval \<Rightarrow> jsval \<Rightarrow> tox \<Rightarrow> (error + unit) \<times> tox" where
  "bootstrapSync e eng address port publicKey s =
     (case publicKey_param e publicKey of
        Inl err \<Rightarrow> (Inl err, s)
      | Inr key \<Rightarrow>
          (case ffi_reject e port key of
             Some err \<Rightarrow> (Inl err, s)
           | None \<Rightarrow>
               (let addr = address_param address;
                    (success, eptr) = bootstrap_result eng (calls s) (handle s) addr port key;
                    s1 = s\<lparr>calls := calls s @ [Call_tox_bootstrap (handle s) addr port key]\<rparr>
                in case getToxBootstrapError e eptr of
                     Some terr \<Rightarrow> (Inl terr, s1)
                   | None \<Rightarrow>
                       if success = False then (Inl BootstrapFalseNoError, s1)
                       else (Inr (), s1))))"

text \<open>
  The function handed to \<^verbatim>\<open>tox_bootstrap.async\<close> (lines 209 to 218), up to the call of the
  callback: \<open>err\<close> and \<open>res\<close> are what \<^verbatim>\<open>ffi\<close> passes, \<open>eptr\<close> the byte behind the error
  pointer. The result is the \<open>err\<close> the callback is given.
\<close>

definition bootstrap_done :: "env \<Rightarrow> error option \<Rightarrow> jsval \<Rightarrow> byte \<Rightarrow> error option" where
  "bootstrap_done e err res eptr =
     (let terr = getToxBootstrapError e eptr;
          err1 = (if err = None \<and> terr \<noteq> None then terr else err);
          err2 = (if err1 = None \<and> res = JBool False then Some BootstrapFalseNoError else err1)
      in err2)"

text \<open>
  The asynchronous variant. \<open>callback\<close> says whether a callback was passed; the result is
  \<open>Inl\<close> for an error thrown before the call is queued, \<open>Inr None\<close> when there is no
  callback to tell, and \<open>Inr (Some err)\<close> when the callback is called with \<open>err\<close>.
  When \<^verbatim>\<open>ffi\<close> cannot convert the arguments the native function is not entered, \<open>err\<close> is
  that error, \<open>res\<close> is undefined and the byte behind the error pointer is \<open>eptr0\<close>, what
  \<^verbatim>\<open>ref.alloc\<close> left there.
\<close>

definition bootstrap ::
  "env \<Rightarrow> engine \<Rightarrow> byte \<Rightarrow> string \<Rightarrow> jsval \<Rightarrow> jsval \<Rightarrow> bool \<Rightarrow> tox
     \<Rightarrow> (error + error option option) \<times> tox" where
  "bootstrap e eng eptr0 address port publicKey callback s =
     (case publicKey_param e publicKey of
        Inl err \<Rightarrow> (Inl err, s)
      | Inr key \<Rightarrow>
          (case ffi_reject e port key of
             Some err \<Rightarrow>
               (Inr (if callback then Some (bootstrap_done e (Some err) JUndefined eptr0)
                     else None), s)
           | None \<Rightarrow>
               (let addr = address_param address;
                    (res, eptr) = bootstrap_result eng (calls s) (handle s) addr port key;
                    s1 = s\<lparr>calls := calls s @ [Call_tox_bootstrap (handle s) addr port key]\<rparr>
                in (Inr (if callback then Some (bootstrap_done e None (JBool res) eptr)
                         else None), s1))))"

subsection \<open>Iteration and teardown (lines 277 to 325)\<close>

definition isStarted :: "tox \<Rightarrow> bool" where
  "isStarted s = (interval s \<noteq> None)"

definition iterationIntervalSync :: "engine \<Rightarrow> tox \<Rightarrow> 32 word \<times> tox" where
  "iterationIntervalSync eng s =
     (interval_result eng (calls s) (handle s),
      s\<lparr>calls := calls s @ [Call_tox_iteration_interval (handle s)]\<rparr>)"

definition iterateSync :: "tox \<Rightarrow> tox" where
  "iterateSync s = s\<lparr>calls := calls s @ [Call_tox_iterate (handle s)]\<rparr>"

definition killSync :: "tox \<Rightarrow> tox" where
  "killSync s = s\<lparr>calls := calls s @ [Call_tox_kill (handle s)]\<rparr>"

subsection \<open>The timer loop (lines 333 to 348)\<close>

text \<open>\<^verbatim>\<open>ToNumber\<close>, \<^verbatim>\<open>isNaN(wait)\<close> and \<^verbatim>\<open>wait <= 0\<close>.\<close>

fun ToNumber :: "env \<Rightarrow> jsval \<Rightarrow> jsnum" where
  "ToNumber e JUndefined = NaN"
| "ToNumber e JNull = Fin 0"
| "ToNumber e (JBool b) = Fin (if b then 1 else 0)"
| "ToNumber e (JNum n) = n"
| "ToNumber e v = to_number_other e v"

definition js_isNaN :: "env \<Rightarrow> jsval \<Rightarrow> bool" where
  "js_isNaN e v = (ToNumber e v = NaN)"

definition js_le_zero :: "env \<Rightarrow> jsval \<Rightarrow> bool" where
  "js_le_zero e v =
     (case ToNumber e v of NaN \<Rightarrow> False | NegInf \<Rightarrow> True | PosInf \<Rightarrow> False | Fin q \<Rightarrow> q \<le> 0)"

text \<open>
  \<^verbatim>\<open>setInterval(Tox.prototype.iterateSync.bind(this), wait)\<close> arms a new timer and returns
  it; \<^verbatim>\<open>clearInterval\<close> disarms one.
\<close>

definition setInterval :: "jsval \<Rightarrow> tox \<Rightarrow> nat \<times> tox" where
  "setInterval wait s =
     (next_timer s,
      s\<lparr>timers := timers s @ [(next_timer s, wait)], next_timer := Suc (next_timer s)\<rparr>)"

definition clearInterval :: "nat \<Rightarrow> tox \<Rightarrow> tox" where
  "clearInterval t s = s\<lparr>timers := filter (\<lambda>p. fst p \<noteq> t) (timers s)\<rparr>"

definition start :: "env \<Rightarrow> jsval \<Rightarrow> tox \<Rightarrow> tox" where
  "start e wait s =
     (if \<not> isStarted s then
        (let wait1 = (if js_isNaN e wait \<or> js_le_zero e wait then JNum (Fin 40) else wait);
             (t, s1) = setInterval wait1 s
         in s1\<lparr>interval := Some t\<rparr>)
      else s)"

definition stop :: "tox \<Rightarrow> tox" where
  "stop s =
     (case interval s of
        Some t \<Rightarrow> (clearInterval t s)\<lparr>interval := None\<rparr>
      | None \<Rightarrow> s)"

subsection \<open>Saved state\<close>

text \<open>
  Modelled from the spec: \<^verbatim>\<open>getSaveData\<close>. The file declares the two native functions
  \<^verbatim>\<open>tox_get_savedata_size\<close> and \<^verbatim>\<open>tox_get_savedata\<close> (lines 265 and 266) and has no method
  that calls them. The spec's words: query the required buffer size, then request the
  engine to fill a buffer of exactly that size. The engine writes into the buffer it is
  given; the buffer keeps its length.
\<close>

definition fill_buffer :: "byte list \<Rightarrow> byte list \<Rightarrow> byte list" where
  "fill_buffer buf written = take (length buf) (written @ drop (length written) buf)"

definition getSaveData :: "engine \<Rightarrow> tox \<Rightarrow> byte list \<times> tox" where
  "getSaveData eng s =
     (let n = savedata_size_result eng (calls s) (handle s);
          s1 = s\<lparr>calls := calls s @ [Call_tox_get_savedata_size (handle s)]\<rparr>;
          buf = fill_buffer (replicate n 0) (savedata_result eng (calls s1) (handle s1));
          s2 = s1\<lparr>calls := calls s1 @ [Call_tox_get_savedata (handle s1) n]\<rparr>
      in (buf, s2))"

section \<open>Concrete instances\<close>

text \<open>
  The values of toxcore's header for the constants, and two global scopes: the one of
  the file as it stands, which binds none of the identifiers it reads, and one that
  binds them to toxcore's values.
\<close>

definition unbound_globals :: "string \<Rightarrow> byte option" where
  "unbound_globals = (\<lambda>x. None)"

definition toxcore_globals :: "string \<Rightarrow> byte option" where
  "toxcore_globals =
     map_of [(''TOX_PROXY_NONE'', 0), (''TOX_PROXY_TYPE_NONE'', 0),
             (''TOX_PROXY_TYPE_HTTP'', 1), (''TOX_PROXY_TYPE_SOCKS5'', 2)]"

text \<open>A hexadecimal decoder to stand for \<^verbatim>\<open>fromHex\<close> in the examples.\<close>

definition hex_digit :: "byte \<Rightarrow> nat option" where
  "hex_digit b =
     (let n = unat b
      in if 48 \<le> n \<and> n \<le> 57 then Some (n - 48)
         else if 97 \<le> n \<and> n \<le> 102 then Some (n - 87)
         else if 65 \<le> n \<and> n \<le> 70 then Some (n - 55)
         else None)"

fun hex_decode :: "byte list \<Rightarrow> error + byte list" where
  "hex_decode [] = Inr []"
| "hex_decode [a] = Inl (LibraryError ''odd length'')"
| "hex_decode (a # b # r) =
     (case (hex_digit a, hex_digit b) of
        (Some h, Some l) \<Rightarrow>
          (case hex_decode r of Inl err \<Rightarrow> Inl err | Inr bs \<Rightarrow> Inr (of_nat (16 * h + l) # bs))
      | _ \<Rightarrow> Inl (LibraryError ''not hexadecimal''))"

definition example_env :: env where
  "example_env =
     \<lparr>TOX_PROXY_TYPE_NONE = 0, TOX_ERR_NEW_OK = 0, TOX_ERR_BOOTSTRAP_OK = 0,
      globals = unbound_globals,
      parseProxy = (\<lambda>s. JUndefined),
      fromHex = hex_decode,
      uint16_other = (\<lambda>n. Inl (LibraryError ''value is out of bounds'')),
      ffi_reject = (\<lambda>port key. None),
      to_number_other = (\<lambda>v. NaN)\<rparr>"

definition zero_options :: ToxOptions where
  "zero_options =
     \<lparr>ipv6enabled = 0, udp_disabled = 0, proxy_type = 0, proxy_address = replicate 256 0,
      proxy_port = 0, start_port = 0, end_port = 0\<rparr>"

text \<open>
  An engine that accepts every call: pointer 7 and status 0 from \<^verbatim>\<open>tox_new\<close>, true and
  status 0 from \<^verbatim>\<open>tox_bootstrap\<close>; and an instance around pointer 7 with no timer.
\<close>

definition example_engine :: engine where
  "example_engine =
     \<lparr>new_result = (\<lambda>log options. (7, 0)),
      bootstrap_result = (\<lambda>log h addr port key. (True, 0)),
      interval_result = (\<lambda>log h. 50),
      savedata_size_result = (\<lambda>log h. 3),
      savedata_result = (\<lambda>log h. [1, 2, 3])\<rparr>"

definition example_tox :: tox where
  "example_tox = \<lparr>handle = 7, interval = None, calls = [], timers = [], next_timer = 1\<rparr>"

section \<open>The configuration builder\<close>

subsection \<open>Writing into a buffer\<close>

lemma length_utf8_char: "0 < length (utf8_char c) \<and> length (utf8_char c) \<le> 2"
  by (simp add: utf8_char_def Let_def)

lemma length_utf8_fit: "length (utf8_fit n s) \<le> n"
proof (induction s arbitrary: n)
  case Nil
  show ?case by simp
next
  case (Cons c cs)
  show ?case
  proof (cases "length (utf8_char c) \<le> n")
    case True
    with Cons.IH [of "n - length (utf8_char c)"] show ?thesis
      by (simp add: Let_def)
  next
    case False
    then show ?thesis by (simp add: Let_def)
  qed
qed

text \<open>What is written is the beginning of the string's encoding.\<close>

lemma utf8_fit_prefix: "\<exists>rest. utf8 s = utf8_fit n s @ rest"
proof (induction s arbitrary: n)
  case Nil
  show ?case by (simp add: utf8_def)
next
  case (Cons c cs)
  from Cons.IH [of "n - length (utf8_char c)"] show ?case
    by (auto simp: utf8_def Let_def)
qed

lemma length_buffer_write: "length (buffer_write buf s off len) = length buf"
proof -
  let ?w = "utf8_fit (min len (length buf - off)) s"
  have "length ?w \<le> length buf - off"
    using length_utf8_fit [of "min len (length buf - off)" s] by simp
  then show ?thesis
    by (cases "off \<le> length buf") (simp_all add: buffer_write_def Let_def)
qed

text \<open>A write of at most \<open>len\<close> bytes at \<open>off\<close> leaves every byte from \<open>off + len\<close> on alone.\<close>

lemma buffer_write_beyond:
  "off + len \<le> i \<Longrightarrow> i < length buf \<Longrightarrow> buffer_write buf s off len ! i = buf ! i"
  using length_utf8_fit [of "min len (length buf - off)" s]
  by (auto simp: buffer_write_def Let_def nth_append)

lemma buffer_write_zero:
  "buffer_write (replicate n 0) s 0 len =
     utf8_fit (min len n) s @ replicate (n - length (utf8_fit (min len n) s)) 0"
  by (simp add: buffer_write_def Let_def)

subsection \<open>What each step of the proxy code touches\<close>

lemma set_proxy_type_address:
  "set_proxy_type e proxy options = Inr options1 \<Longrightarrow>
     proxy_address options1 = proxy_address options"
  by (auto simp: set_proxy_type_def Let_def split: sum.splits jsval.splits if_splits)

lemma set_proxy_port_address:
  "set_proxy_port e proxy options = Inr options1 \<Longrightarrow>
     proxy_address options1 = proxy_address options"
  by (auto simp: set_proxy_port_def split: sum.splits jsval.splits)

lemma set_proxy_type_frame:
  "set_proxy_type e proxy options = Inr options1 \<Longrightarrow>
     ipv6enabled options1 = ipv6enabled options \<and> udp_disabled options1 = udp_disabled options \<and>
     start_port options1 = start_port options \<and> end_port options1 = end_port options"
  by (auto simp: set_proxy_type_def Let_def split: sum.splits jsval.splits if_splits)

lemma set_proxy_port_frame:
  "set_proxy_port e proxy options = Inr options1 \<Longrightarrow>
     ipv6enabled options1 = ipv6enabled options \<and> udp_disabled options1 = udp_disabled options \<and>
     start_port options1 = start_port options \<and> end_port options1 = end_port options"
  by (auto simp: set_proxy_port_def split: sum.splits jsval.splits)

lemma set_proxy_address_frame:
  "ipv6enabled (set_proxy_address proxy options) = ipv6enabled options \<and>
   udp_disabled (set_proxy_address proxy options) = udp_disabled options \<and>
   start_port (set_proxy_address proxy options) = start_port options \<and>
   end_port (set_proxy_address proxy options) = end_port options"
  by (simp add: set_proxy_address_def split: jsval.splits)

lemma setProxy_frame:
  assumes "setProxyToToxOptions e opts options = Inr cfg"
  shows "ipv6enabled cfg = ipv6enabled options \<and> udp_disabled cfg = udp_disabled options \<and>
     start_port cfg = start_port options \<and> end_port cfg = end_port options"
  using assms
  by (auto simp: setProxyToToxOptions_def Let_def set_proxy_address_frame
      split: sum.splits if_splits
      dest!: set_proxy_type_frame set_proxy_port_frame)

lemma set_proxy_address_zero:
  assumes "proxy_address options = replicate 256 0"
  shows "\<exists>w. length w \<le> 255 \<and>
    proxy_address (set_proxy_address proxy options) = w @ replicate (256 - length w) 0"
proof (cases "get_prop proxy ''address''")
  case (JStr a)
  have "length (utf8_fit 255 a) \<le> 255" by (rule length_utf8_fit)
  moreover have "proxy_address (set_proxy_address proxy options) =
      utf8_fit 255 a @ replicate (256 - length (utf8_fit 255 a)) 0"
    using assms JStr by (simp add: set_proxy_address_def buffer_write_zero)
  ultimately show ?thesis by blast
qed (use assms in \<open>auto simp: set_proxy_address_def intro!: exI [of _ "[]"]\<close>)

lemma setProxy_address_zero:
  assumes res: "setProxyToToxOptions e opts options = Inr cfg"
    and zero: "proxy_address options = replicate 256 0"
  shows "\<exists>w. length w \<le> 255 \<and> proxy_address cfg = w @ replicate (256 - length w) 0"
proof -
  let ?proxy = "proxy_of_opts e opts"
  have untouched: "\<exists>w. length w \<le> 255 \<and> proxy_address c = w @ replicate (256 - length w) 0"
    if "proxy_address c = replicate 256 0" for c :: ToxOptions
    using that by (intro exI [of _ "[]"]) simp
  show ?thesis
  proof (cases "isObject ?proxy")
    case False
    with res have "cfg = options"
      by (simp add: setProxyToToxOptions_def Let_def)
    with zero have "proxy_address cfg = replicate 256 0" by simp
    then show ?thesis by (rule untouched)
  next
    case True
    with res obtain options1 none where
      ty: "set_proxy_type e ?proxy options = Inr options1"
      and rest: "(if proxy_type options1 \<noteq> none
                  then set_proxy_port e ?proxy (set_proxy_address ?proxy options1)
                  else Inr options1) = Inr cfg"
      by (auto simp: setProxyToToxOptions_def Let_def split: sum.splits)
    from ty zero have zero1: "proxy_address options1 = replicate 256 0"
      by (simp add: set_proxy_type_address)
    show ?thesis
    proof (cases "proxy_type options1 \<noteq> none")
      case False
      with rest have "cfg = options1" by simp
      with zero1 have "proxy_address cfg = replicate 256 0" by simp
      then show ?thesis by (rule untouched)
    next
      case True
      with rest have "set_proxy_port e ?proxy (set_proxy_address ?proxy options1) = Inr cfg"
        by simp
      then have "proxy_address cfg = proxy_address (set_proxy_address ?proxy options1)"
        by (rule set_proxy_port_address)
      with set_proxy_address_zero [OF zero1, of ?proxy] show ?thesis by simp
    qed
  qed
qed

lemma createToxOptions_address:
  assumes "createToxOptions e fresh opts = Inr cfg"
  shows "\<exists>w. length w \<le> 255 \<and> proxy_address cfg = w @ replicate (256 - length w) 0"
  using assms unfolding createToxOptions_def Let_def
  by (rule setProxy_address_zero) simp

subsection \<open>The address buffer\<close>

text \<open>
  Line 116 on the cleared array: the bytes stored are the encodings of the leading
  characters of the address that fit whole into 255 bytes, a beginning of the address's
  encoding, and zeros fill the rest.
\<close>

lemma set_proxy_address_truncates:
  assumes "get_prop proxy ''address'' = JStr a"
    and "proxy_address options = replicate 256 0"
  shows "proxy_address (set_proxy_address proxy options)
           = utf8_fit 255 a @ replicate (256 - length (utf8_fit 255 a)) 0
    \<and> length (utf8_fit 255 a) \<le> 255
    \<and> (\<exists>rest. utf8 a = utf8_fit 255 a @ rest)"
  using assms length_utf8_fit [of 255 a] utf8_fit_prefix [of a 255]
  by (simp add: set_proxy_address_def buffer_write_zero)

text \<open>
  Whatever the options and the scope, a configuration that \<^verbatim>\<open>_createToxOptions\<close> returns
  has its 256 address bytes made of at most 255 written bytes followed by zeros only.
\<close>

theorem proxy_address_never_overflows:
  assumes "createToxOptions e fresh opts = Inr cfg"
  shows "length (proxy_address cfg) = 256 \<and> proxy_address cfg ! 255 = 0 \<and>
    (\<exists>w. length w \<le> 255 \<and> proxy_address cfg = w @ replicate (256 - length w) 0)"
proof -
  from createToxOptions_address [OF assms] obtain w where
    w: "length w \<le> 255" "proxy_address cfg = w @ replicate (256 - length w) 0"
    by blast
  then have "length (proxy_address cfg) = 256" by simp
  moreover from w have "proxy_address cfg ! 255 = 0" by (simp add: nth_append)
  ultimately show ?thesis using w by blast
qed

text \<open>
  An address of 300 characters, in a scope that binds the four identifiers: 255 bytes of
  it are stored, then the terminator.
\<close>

theorem proxy_address_never_overflows_witness:
  "createToxOptions (example_env\<lparr>globals := toxcore_globals\<rparr>) zero_options
     (JObj [(''proxy'', JObj [(''type'', JStr ''http''),
                             (''address'', JStr (replicate 300 CHR ''a'')),
                             (''port'', JNum (Fin 8080))])])
   = Inr (zero_options\<lparr>proxy_type := 1, proxy_address := replicate 255 97 @ [0],
                        proxy_port := 8080\<rparr>)
   \<and> length (replicate 255 (97::byte) @ [0]) = 256
   \<and> (replicate 255 (97::byte) @ [0]) ! 255 = 0"
proof -
  have run: "createToxOptions (example_env\<lparr>globals := toxcore_globals\<rparr>) zero_options
     (JObj [(''proxy'', JObj [(''type'', JStr ''http''),
                             (''address'', JStr (replicate 300 CHR ''a'')),
                             (''port'', JNum (Fin 8080))])])
   = Inr (zero_options\<lparr>proxy_type := 1, proxy_address := replicate 255 97 @ [0],
                        proxy_port := 8080\<rparr>)"
    by code_simp
  from proxy_address_never_overflows [OF run] show ?thesis
    using run by simp
qed

text \<open>
  In the scope of the file as it stands line 116 is never reached: a configuration is
  returned only when the proxy is no object, and its address is all zero.
\<close>

lemma unbound_scope_stores_no_address:
  assumes "globals e = unbound_globals"
    and "createToxOptions e fresh opts = Inr cfg"
  shows "proxy_address cfg = replicate 256 0 \<and> \<not> isObject (proxy_of_opts e opts)"
  using assms
  by (auto simp: createToxOptions_def setProxyToToxOptions_def set_proxy_type_def
      read_global_def unbound_globals_def Let_def split: if_splits)

subsection \<open>A proxy that is not recognised\<close>

text \<open>
  A proxy string that \<^verbatim>\<open>util.parseProxy\<close> does not turn into an object leaves the defaults
  in place.
\<close>

lemma unparsed_proxy_string_sets_no_proxy:
  assumes "\<not> isObject (parseProxy e str)"
  shows "proxy_type (case createToxOptions e fresh (JObj [(''proxy'', JStr str)]) of Inr c \<Rightarrow> c)
           = TOX_PROXY_TYPE_NONE e
    \<and> createToxOptions e fresh (JObj [(''proxy'', JStr str)]) =
        Inr (fresh\<lparr>ipv6enabled := 0, udp_disabled := 0, proxy_type := TOX_PROXY_TYPE_NONE e,
                   proxy_address := replicate 256 0, proxy_port := 0\<rparr>)"
  using assms
  by (simp add: createToxOptions_def setProxyToToxOptions_def proxy_of_opts_def Let_def)

text \<open>
  Line 107 reads \<^verbatim>\<open>TOX_PROXY_NONE\<close> as soon as the proxy is an object, before its type is
  looked at. Nothing in the file declares that identifier (line 77 reads the constant as
  \<^verbatim>\<open>consts.TOX_PROXY_TYPE_NONE\<close>), so in a scope that does not bind it every proxy object
  ends in a \<^verbatim>\<open>ReferenceError\<close>.
\<close>

lemma proxy_object_throws:
  "createToxOptions (e\<lparr>globals := unbound_globals\<rparr>) fresh (JObj [(''proxy'', JObj fs)])
     = Inl (ReferenceError ''TOX_PROXY_NONE'')"
  by (simp add: createToxOptions_def setProxyToToxOptions_def proxy_of_opts_def
      set_proxy_type_def read_global_def unbound_globals_def Let_def)

text \<open>
  C2. The claim is that a proxy whose type is none of http, socks and socks5 gives a
  configuration without proxy and never throws. At the proxy object
  \<^verbatim>\<open>{type: 'ftp'}\<close> the builder throws the \<^verbatim>\<open>ReferenceError\<close> instead.
\<close>

theorem unrecognised_proxy_type_throws:
  "createToxOptions example_env zero_options
     (JObj [(''proxy'', JObj [(''type'', JStr ''ftp'')])])
   = Inl (ReferenceError ''TOX_PROXY_NONE'')"
  by code_simp

text \<open>
  C5. The claim is that a proxy address of any length, 300 characters included, is
  stored cut to at most 255 bytes with the terminator kept. At the proxy
  \<^verbatim>\<open>{type: 'http', address: 'a' x 300, port: 8080}\<close> the builder stores nothing and throws
  the \<^verbatim>\<open>ReferenceError\<close> of line 107 instead, as for every proxy object.
\<close>

theorem long_proxy_address_throws:
  "createToxOptions example_env zero_options
     (JObj [(''proxy'', JObj [(''type'', JStr ''http''),
                             (''address'', JStr (replicate 300 CHR ''a'')),
                             (''port'', JNum (Fin 8080))])])
   = Inl (ReferenceError ''TOX_PROXY_NONE'')"
  by code_simp

subsection \<open>Defaults\<close>

text \<open>
  With ipv6, udp and proxy left out, five fields get their defaults; the two ports of
  the range are never assigned and keep what the new struct held.
\<close>

lemma createToxOptions_defaults:
  assumes "get_prop opts ''ipv6'' = JUndefined" and "get_prop opts ''udp'' = JUndefined"
    and "get_prop opts ''proxy'' = JUndefined"
  shows "createToxOptions e fresh opts =
     Inr \<lparr>ipv6enabled = 0, udp_disabled = 0, proxy_type = TOX_PROXY_TYPE_NONE e,
          proxy_address = replicate 256 0, proxy_port = 0,
          start_port = start_port fresh, end_port = end_port fresh\<rparr>"
  using assms
  by (simp add: createToxOptions_def setProxyToToxOptions_def proxy_of_opts_def Let_def)

text \<open>
  In every configuration returned, \<open>udp_disabled\<close> is 0 when the udp option is left
  out or truthy and 1 otherwise, and \<open>ipv6enabled\<close> is 1 exactly when the ipv6
  option is given and truthy.
\<close>

lemma udp_disabled_inverse:
  assumes "createToxOptions e fresh opts = Inr cfg"
  shows "udp_disabled cfg =
     (if get_prop opts ''udp'' = JUndefined \<or> truthy (get_prop opts ''udp'') then 0 else 1)
    \<and> ipv6enabled cfg =
     (if get_prop opts ''ipv6'' \<noteq> JUndefined \<and> truthy (get_prop opts ''ipv6'') then 1 else 0)"
  using setProxy_frame [OF assms [unfolded createToxOptions_def Let_def]]
  by auto

lemma port_range_never_written:
  assumes "createToxOptions e fresh opts = Inr cfg"
  shows "start_port cfg = start_port fresh \<and> end_port cfg = end_port fresh"
  using setProxy_frame [OF assms [unfolded createToxOptions_def Let_def]]
  by simp

text \<open>
  C4. The claim is that with ipv6, udp and proxy left out the configuration has IPv6
  off, UDP on, no proxy and no custom port range. The first three hold; but
  \<open>start_port\<close> and \<open>end_port\<close> are not assigned, so a struct allocated over memory
  that held 33445 and 44445 there is returned with that port range, for the empty
  options object.
\<close>

theorem default_port_range_is_leftover_memory:
  "createToxOptions example_env (zero_options\<lparr>start_port := 33445, end_port := 44445\<rparr>) (JObj [])
   = Inr \<lparr>ipv6enabled = 0, udp_disabled = 0, proxy_type = 0, proxy_address = replicate 256 0,
          proxy_port = 0, start_port = 33445, end_port = 44445\<rparr>"
  by code_simp

section \<open>Creating a handle\<close>

text \<open>
  C6. \<^verbatim>\<open>_initNew\<close> throws the creation error, carrying the status \<^verbatim>\<open>tox_new\<close> reported,
  exactly when that status differs from \<^verbatim>\<open>TOX_ERR_NEW_OK\<close>, and it throws nothing else;
  with status OK it returns normally. Either way one native call was made and
  \<^verbatim>\<open>_handle\<close> is the pointer \<^verbatim>\<open>tox_new\<close> returned.
\<close>

theorem initNew_throws_iff_status_not_ok:
  "(fst (initNew e eng options s) = Inl (ToxNewError (snd (new_result eng (calls s) options))))
     = (snd (new_result eng (calls s) options) \<noteq> TOX_ERR_NEW_OK e)
   \<and> (fst (initNew e eng options s) = Inr ())
     = (snd (new_result eng (calls s) options) = TOX_ERR_NEW_OK e)
   \<and> (\<exists>v. fst (initNew e eng options s) = Inl (ToxNewError v))
     = (snd (new_result eng (calls s) options) \<noteq> TOX_ERR_NEW_OK e)
   \<and> handle (snd (initNew e eng options s)) = fst (new_result eng (calls s) options)
   \<and> calls (snd (initNew e eng options s)) = calls s @ [Call_tox_new options]"
  by (auto simp: initNew_def checkToxNewError_def Let_def split: prod.splits)

text \<open>The example engine reports status 0; an engine that reports 5 makes creation fail.\<close>

theorem initNew_throws_iff_status_not_ok_witness:
  "initNew example_env example_engine (Some zero_options) example_tox
     = (Inr (), example_tox\<lparr>calls := [Call_tox_new (Some zero_options)]\<rparr>)
   \<and> fst (initNew example_env (example_engine\<lparr>new_result := (\<lambda>log options. (0, 5))\<rparr>)
        (Some zero_options) example_tox) = Inl (ToxNewError 5)"
proof -
  have ok: "snd (new_result example_engine (calls example_tox) (Some zero_options))
      = TOX_ERR_NEW_OK example_env"
    by (simp add: example_engine_def example_env_def)
  have bad: "snd (new_result (example_engine\<lparr>new_result := (\<lambda>log options. (0, 5))\<rparr>)
      (calls example_tox) (Some zero_options)) \<noteq> TOX_ERR_NEW_OK example_env"
    by (simp add: example_env_def)
  have run: "snd (initNew example_env example_engine (Some zero_options) example_tox)
      = example_tox\<lparr>calls := [Call_tox_new (Some zero_options)]\<rparr>"
    by (simp add: initNew_def example_engine_def example_tox_def)
  from initNew_throws_iff_status_not_ok [of example_env example_engine "Some zero_options"
      example_tox]
    initNew_throws_iff_status_not_ok [of example_env
      "example_engine\<lparr>new_result := (\<lambda>log options. (0, 5))\<rparr>" "Some zero_options" example_tox]
  show ?thesis using ok bad run by (simp add: prod_eq_iff)
qed

section \<open>Bootstrap\<close>

text \<open>
  C1. The claim is that every bootstrap call fails with the matching error when the
  engine answers false with status OK, or a status other than OK. The callback of the
  asynchronous variant is optional (line 219): called without one, it makes the native
  call and reports nothing, whatever the engine answered.
\<close>

theorem bootstrap_without_callback_counterexample:
  "fst (bootstrap example_env
         (example_engine\<lparr>bootstrap_result := (\<lambda>log h addr port key. (False, 0))\<rparr>) 9
         ''node.example'' (JNum (Fin 33445)) (JStr ''0aFF'') False example_tox)
       = Inr None
   \<and> fst (bootstrap example_env
         (example_engine\<lparr>bootstrap_result := (\<lambda>log h addr port key. (True, 3))\<rparr>) 9
         ''node.example'' (JNum (Fin 33445)) (JStr ''0aFF'') False example_tox)
       = Inr None
   \<and> calls (snd (bootstrap example_env
         (example_engine\<lparr>bootstrap_result := (\<lambda>log h addr port key. (True, 3))\<rparr>) 9
         ''node.example'' (JNum (Fin 33445)) (JStr ''0aFF'') False example_tox))
       = [Call_tox_bootstrap 7 (address_param ''node.example'') (JNum (Fin 33445))
            (JBuf [10, 255])]"
  by code_simp

text \<open>
  C1, as the file has it. When the key and the port reach the native call and
  \<^verbatim>\<open>tox_bootstrap\<close> answers \<open>res\<close> with status \<open>status\<close>: true and OK is success;
  false and OK is the error "returned false but no error set"; a status other than OK
  is the bootstrap error carrying that status, whatever \<open>res\<close> is. The synchronous
  variant returns or throws accordingly; the asynchronous one hands the same outcome
  to its callback when it was given one, and reports nothing when it was given none.
\<close>

theorem bootstrap_result_mapping:
  assumes key: "publicKey_param e publicKey = Inr key"
    and conv: "ffi_reject e port key = None"
    and answer: "bootstrap_result eng (calls s) (handle s) (address_param address) port key
                   = (res, status)"
  shows "(res \<and> status = TOX_ERR_BOOTSTRAP_OK e \<longrightarrow>
            fst (bootstrapSync e eng address port publicKey s) = Inr () \<and>
            fst (bootstrap e eng eptr0 address port publicKey callback s)
              = Inr (if callback then Some None else None))
       \<and> (\<not> res \<and> status = TOX_ERR_BOOTSTRAP_OK e \<longrightarrow>
            fst (bootstrapSync e eng address port publicKey s) = Inl BootstrapFalseNoError \<and>
            fst (bootstrap e eng eptr0 address port publicKey callback s)
              = Inr (if callback then Some (Some BootstrapFalseNoError) else None))
       \<and> (status \<noteq> TOX_ERR_BOOTSTRAP_OK e \<longrightarrow>
            fst (bootstrapSync e eng address port publicKey s) = Inl (ToxBootstrapError status) \<and>
            fst (bootstrap e eng eptr0 address port publicKey callback s)
              = Inr (if callback then Some (Some (ToxBootstrapError status)) else None))"
  using assms
  by (simp add: bootstrapSync_def bootstrap_def bootstrap_done_def getToxBootstrapError_def
      Let_def)

theorem bootstrap_result_mapping_witness:
  "fst (bootstrapSync example_env example_engine ''node.example'' (JNum (Fin 33445))
         (JStr ''0aFF'') example_tox) = Inr ()
   \<and> fst (bootstrap example_env example_engine 9 ''node.example'' (JNum (Fin 33445))
         (JStr ''0aFF'') True example_tox) = Inr (Some None)
   \<and> fst (bootstrapSync example_env
         (example_engine\<lparr>bootstrap_result := (\<lambda>log h addr port key. (False, 0))\<rparr>)
         ''node.example'' (JNum (Fin 33445)) (JStr ''0aFF'') example_tox)
       = Inl BootstrapFalseNoError
   \<and> fst (bootstrap example_env
         (example_engine\<lparr>bootstrap_result := (\<lambda>log h addr port key. (False, 0))\<rparr>) 9
         ''node.example'' (JNum (Fin 33445)) (JStr ''0aFF'') True example_tox)
       = Inr (Some (Some BootstrapFalseNoError))
   \<and> fst (bootstrapSync example_env
         (example_engine\<lparr>bootstrap_result := (\<lambda>log h addr port key. (True, 3))\<rparr>)
         ''node.example'' (JNum (Fin 33445)) (JStr ''0aFF'') example_tox)
       = Inl (ToxBootstrapError 3)
   \<and> fst (bootstrap example_env
         (example_engine\<lparr>bootstrap_result := (\<lambda>log h addr port key. (True, 3))\<rparr>) 9
         ''node.example'' (JNum (Fin 33445)) (JStr ''0aFF'') True example_tox)
       = Inr (Some (Some (ToxBootstrapError 3)))"
proof -
  have key: "publicKey_param example_env (JStr ''0aFF'') = Inr (JBuf [10, 255])"
    by code_simp
  have conv: "ffi_reject example_env (JNum (Fin 33445)) (JBuf [10, 255]) = None"
    by (simp add: example_env_def)
  have ok: "bootstrap_result example_engine (calls example_tox) (handle example_tox)
      (address_param ''node.example'') (JNum (Fin 33445)) (JBuf [10, 255]) = (True, 0)"
    by (simp add: example_engine_def)
  have no: "bootstrap_result
      (example_engine\<lparr>bootstrap_result := (\<lambda>log h addr port key. (False, 0))\<rparr>)
      (calls example_tox) (handle example_tox)
      (address_param ''node.example'') (JNum (Fin 33445)) (JBuf [10, 255]) = (False, 0)"
    by simp
  have bad: "bootstrap_result
      (example_engine\<lparr>bootstrap_result := (\<lambda>log h addr port key. (True, 3))\<rparr>)
      (calls example_tox) (handle example_tox)
      (address_param ''node.example'') (JNum (Fin 33445)) (JBuf [10, 255]) = (True, 3)"
    by simp
  have zero: "TOX_ERR_BOOTSTRAP_OK example_env = 0"
    by (simp add: example_env_def)
  show ?thesis
    using bootstrap_result_mapping [OF key conv ok, of 9 True]
      bootstrap_result_mapping [OF key conv no, of 9 True]
      bootstrap_result_mapping [OF key conv bad, of 9 True]
    by (simp add: zero)
qed

text \<open>
  C9. A key given as a string reaches \<^verbatim>\<open>tox_bootstrap\<close> as the buffer \<^verbatim>\<open>fromHex\<close> made
  of it, a key given as a buffer reaches it unchanged, in both variants.
\<close>

theorem publicKey_decoded_before_call:
  assumes hex: "fromHex e (utf8 h) = Inr bs"
    and conv_hex: "ffi_reject e port (JBuf bs) = None"
    and conv_raw: "ffi_reject e port (JBuf raw) = None"
  shows "calls (snd (bootstrapSync e eng address port (JStr h) s))
        = calls s @ [Call_tox_bootstrap (handle s) (address_param address) port (JBuf bs)]
    \<and> calls (snd (bootstrap e eng eptr0 address port (JStr h) callback s))
        = calls s @ [Call_tox_bootstrap (handle s) (address_param address) port (JBuf bs)]
    \<and> calls (snd (bootstrapSync e eng address port (JBuf raw) s))
        = calls s @ [Call_tox_bootstrap (handle s) (address_param address) port (JBuf raw)]
    \<and> calls (snd (bootstrap e eng eptr0 address port (JBuf raw) callback s))
        = calls s @ [Call_tox_bootstrap (handle s) (address_param address) port (JBuf raw)]"
  using assms
  by (simp add: bootstrapSync_def bootstrap_def publicKey_param_def Let_def
      split: prod.splits option.splits)

theorem publicKey_decoded_before_call_witness:
  "calls (snd (bootstrapSync example_env example_engine ''node'' (JNum (Fin 33445))
       (JStr ''0aFF10'') example_tox))
     = [Call_tox_bootstrap 7 (address_param ''node'') (JNum (Fin 33445)) (JBuf [10, 255, 16])]
   \<and> calls (snd (bootstrap example_env example_engine 0 ''node'' (JNum (Fin 33445))
       (JBuf [48, 97]) True example_tox))
     = [Call_tox_bootstrap 7 (address_param ''node'') (JNum (Fin 33445)) (JBuf [48, 97])]"
proof -
  have hex: "fromHex example_env (utf8 ''0aFF10'') = Inr [10, 255, 16]"
    by code_simp
  have c1: "ffi_reject example_env (JNum (Fin 33445)) (JBuf [10, 255, 16]) = None"
    by (simp add: example_env_def)
  have c2: "ffi_reject example_env (JNum (Fin 33445)) (JBuf [48, 97]) = None"
    by (simp add: example_env_def)
  from publicKey_decoded_before_call [OF hex c1 c2, of example_engine "''node''" example_tox 0 True]
  show ?thesis by (simp add: example_tox_def)
qed

text \<open>A string that \<^verbatim>\<open>fromHex\<close> refuses makes both variants throw before any native call.\<close>

lemma bad_hex_key_reaches_no_engine:
  assumes "fromHex e (utf8 h) = Inl err"
  shows "bootstrapSync e eng address port (JStr h) s = (Inl err, s)
    \<and> bootstrap e eng eptr0 address port (JStr h) callback s = (Inl err, s)"
  using assms by (simp add: bootstrapSync_def bootstrap_def publicKey_param_def)

section \<open>After kill\<close>

text \<open>
  C3. The claim is that once kill was called every later operation fails with a
  use-after-close error and makes no native call. The file has no closed flag and no
  such error: after \<^verbatim>\<open>killSync\<close> the operations return as before and each makes its
  native call with the pointer that was killed.
\<close>

theorem use_after_kill_counterexample:
  "iterateSync (killSync example_tox)
     = example_tox\<lparr>calls := [Call_tox_kill 7, Call_tox_iterate 7]\<rparr>
   \<and> iterationIntervalSync example_engine (killSync example_tox)
     = (50, example_tox\<lparr>calls := [Call_tox_kill 7, Call_tox_iteration_interval 7]\<rparr>)
   \<and> bootstrapSync example_env example_engine ''node'' (JNum (Fin 33445)) (JBuf [1, 2])
        (killSync example_tox)
     = (Inr (), example_tox\<lparr>calls :=
          [Call_tox_kill 7,
           Call_tox_bootstrap 7 [110, 111, 100, 101, 0] (JNum (Fin 33445)) (JBuf [1, 2])]\<rparr>)"
  by code_simp

text \<open>
  C3, as the file has it: \<^verbatim>\<open>killSync\<close> makes the one call \<^verbatim>\<open>tox_kill\<close> and changes
  neither \<^verbatim>\<open>_handle\<close> nor the timer; \<^verbatim>\<open>iterateSync\<close>, \<^verbatim>\<open>iterationIntervalSync\<close>,
  \<^verbatim>\<open>bootstrapSync\<close> and \<^verbatim>\<open>bootstrap\<close> called afterwards each pass the same pointer to
  the native library.
\<close>

theorem kill_keeps_handle_in_use:
  assumes key: "publicKey_param e publicKey = Inr key"
    and conv: "ffi_reject e port key = None"
  shows "handle (killSync s) = handle s
    \<and> interval (killSync s) = interval s
    \<and> timers (killSync s) = timers s
    \<and> calls (killSync s) = calls s @ [Call_tox_kill (handle s)]
    \<and> calls (iterateSync (killSync s))
        = calls s @ [Call_tox_kill (handle s), Call_tox_iterate (handle s)]
    \<and> calls (snd (iterationIntervalSync eng (killSync s)))
        = calls s @ [Call_tox_kill (handle s), Call_tox_iteration_interval (handle s)]
    \<and> calls (snd (bootstrapSync e eng address port publicKey (killSync s)))
        = calls s @ [Call_tox_kill (handle s),
                     Call_tox_bootstrap (handle s) (address_param address) port key]
    \<and> calls (snd (bootstrap e eng eptr0 address port publicKey callback (killSync s)))
        = calls s @ [Call_tox_kill (handle s),
                     Call_tox_bootstrap (handle s) (address_param address) port key]"
  using assms
  by (simp add: killSync_def iterateSync_def iterationIntervalSync_def bootstrapSync_def
      bootstrap_def Let_def split: prod.splits option.splits)

theorem kill_keeps_handle_in_use_witness:
  "handle (killSync example_tox) = 7
   \<and> calls (iterateSync (killSync example_tox)) = [Call_tox_kill 7, Call_tox_iterate 7]
   \<and> calls (snd (bootstrapSync example_env example_engine ''node'' (JNum (Fin 33445))
        (JStr ''0102'') (killSync example_tox)))
      = [Call_tox_kill 7,
         Call_tox_bootstrap 7 (address_param ''node'') (JNum (Fin 33445)) (JBuf [1, 2])]"
proof -
  have key: "publicKey_param example_env (JStr ''0102'') = Inr (JBuf [1, 2])"
    by code_simp
  have conv: "ffi_reject example_env (JNum (Fin 33445)) (JBuf [1, 2]) = None"
    by (simp add: example_env_def)
  show ?thesis
    using kill_keeps_handle_in_use [OF key conv, of example_tox example_engine "''node''" 0 True]
    by (simp add: example_tox_def)
qed

section \<open>The timer loop\<close>

text \<open>
  C7. \<^verbatim>\<open>start\<close> on a running instance changes nothing, so a second \<^verbatim>\<open>start\<close> arms no
  second timer; after \<^verbatim>\<open>start\<close>, \<^verbatim>\<open>isStarted\<close> is true, and a \<^verbatim>\<open>start\<close> on a stopped
  instance arms exactly one timer; after \<^verbatim>\<open>stop\<close>, \<^verbatim>\<open>isStarted\<close> is false and the timer
  is disarmed; \<^verbatim>\<open>stop\<close> on a stopped instance changes nothing.
\<close>

theorem start_stop_isStarted:
  "(isStarted s \<longrightarrow> start e wait s = s)
   \<and> isStarted (start e wait s)
   \<and> start e wait' (start e wait s) = start e wait s
   \<and> (\<not> isStarted s \<longrightarrow> length (timers (start e wait s)) = Suc (length (timers s)))
   \<and> \<not> isStarted (stop s)
   \<and> \<not> isStarted (stop (start e wait s))
   \<and> (\<not> isStarted s \<longrightarrow> stop s = s)
   \<and> (\<forall>t. interval s = Some t \<longrightarrow> t \<notin> fst ` set (timers (stop s)))"
  by (auto simp: start_def stop_def isStarted_def setInterval_def clearInterval_def Let_def
      split: option.splits)

theorem start_stop_isStarted_witness:
  "isStarted (start example_env (JNum (Fin 100)) example_tox)
   \<and> timers (start example_env (JNum (Fin 100)) example_tox) = [(1, JNum (Fin 100))]
   \<and> start example_env (JNum (Fin 20)) (start example_env (JNum (Fin 100)) example_tox)
       = start example_env (JNum (Fin 100)) example_tox
   \<and> \<not> isStarted (stop (start example_env (JNum (Fin 100)) example_tox))
   \<and> timers (stop (start example_env (JNum (Fin 100)) example_tox)) = []
   \<and> \<not> isStarted example_tox
   \<and> stop example_tox = example_tox"
proof -
  have running: "isStarted (start example_env (JNum (Fin 100)) example_tox)"
    by code_simp
  have idle: "\<not> isStarted example_tox"
    by code_simp
  have t: "timers (start example_env (JNum (Fin 100)) example_tox) = [(1, JNum (Fin 100))]"
    by code_simp
  have t2: "timers (stop (start example_env (JNum (Fin 100)) example_tox)) = []"
    by code_simp
  from start_stop_isStarted [of "start example_env (JNum (Fin 100)) example_tox" example_env
      "JNum (Fin 20)" "JNum (Fin 100)"]
    start_stop_isStarted [of example_tox example_env "JNum (Fin 100)" "JNum (Fin 100)"]
  show ?thesis using running idle t t2 by simp
qed

text \<open>
  C10. On an instance that is not running, a \<open>wait\<close> that is NaN once converted to a
  number, or is at most 0, is replaced by 40: the timer is armed with 40 milliseconds.
  A \<open>wait\<close> left out is undefined, and NaN as a number.
\<close>

theorem start_defaults_to_40:
  assumes "\<not> isStarted s" and "js_isNaN e wait \<or> js_le_zero e wait"
  shows "timers (start e wait s) = timers s @ [(next_timer s, JNum (Fin 40))]
    \<and> interval (start e wait s) = Some (next_timer s)
    \<and> js_isNaN e JUndefined"
  using assms
  by (simp add: start_def setInterval_def js_isNaN_def Let_def)

theorem start_defaults_to_40_witness:
  "timers (start example_env JUndefined example_tox) = [(1, JNum (Fin 40))]
   \<and> timers (start example_env (JNum (Fin (-5))) example_tox) = [(1, JNum (Fin 40))]
   \<and> timers (start example_env (JNum NaN) example_tox) = [(1, JNum (Fin 40))]
   \<and> timers (start example_env (JStr ''soon'') example_tox) = [(1, JNum (Fin 40))]"
proof -
  have idle: "\<not> isStarted example_tox" by code_simp
  have a: "js_isNaN example_env JUndefined \<or> js_le_zero example_env JUndefined"
    by (simp add: js_isNaN_def)
  have b: "js_isNaN example_env (JNum (Fin (-5))) \<or> js_le_zero example_env (JNum (Fin (-5)))"
    by (simp add: js_le_zero_def)
  have c: "js_isNaN example_env (JNum NaN) \<or> js_le_zero example_env (JNum NaN)"
    by (simp add: js_isNaN_def)
  have d: "js_isNaN example_env (JStr ''soon'') \<or> js_le_zero example_env (JStr ''soon'')"
    by (simp add: js_isNaN_def example_env_def)
  from start_defaults_to_40 [OF idle a] start_defaults_to_40 [OF idle b]
    start_defaults_to_40 [OF idle c] start_defaults_to_40 [OF idle d]
  show ?thesis by (simp add: example_tox_def)
qed

text \<open>Any other \<open>wait\<close> is handed to \<^verbatim>\<open>setInterval\<close> as it is.\<close>

lemma start_keeps_positive_wait:
  assumes "\<not> isStarted s" and "\<not> js_isNaN e wait" and "\<not> js_le_zero e wait"
  shows "timers (start e wait s) = timers s @ [(next_timer s, wait)]"
  using assms by (simp add: start_def setInterval_def Let_def)

section \<open>Saved state\<close>

text \<open>
  C8. \<^verbatim>\<open>getSaveData\<close> asks for the size, then has a buffer of that size filled: the
  buffer returned has the length the size query answered, and that query is the last
  size query in the log.
\<close>

theorem getSaveData_length:
  "length (fst (getSaveData eng s)) = savedata_size_result eng (calls s) (handle s)
   \<and> calls (snd (getSaveData eng s)) =
       calls s @ [Call_tox_get_savedata_size (handle s),
                  Call_tox_get_savedata (handle s) (savedata_size_result eng (calls s) (handle s))]"
  by (simp add: getSaveData_def fill_buffer_def Let_def)

end
